theory Spec2Isabelle
  imports Main
begin

section \<open>AuthManager: values\<close>

text \<open>
  Shallow embedding of \<^verbatim>\<open>src/app/assets/js/authmanager.js\<close>.

  Instants are milliseconds since the epoch and lifetimes are seconds. The source computes
  with JavaScript numbers; on the integers a clock and a token lifetime take, that
  arithmetic is exact, and it is modelled on \<open>int\<close>.
\<close>

type_synonym instant = int
type_synonym seconds = int

subsection \<open>calculateExpiryDate\<close>

text \<open>
  \<^verbatim>\<open>function calculateExpiryDate(nowMs, epiresInS) { return nowMs + ((epiresInS-10)*1000) }\<close>
\<close>

definition marginSeconds :: seconds where
  "marginSeconds = 10"

definition calculateExpiryDate :: "instant \<Rightarrow> seconds \<Rightarrow> instant" where
  "calculateExpiryDate nowMs epiresInS = nowMs + ((epiresInS - 10) * 1000)"

section \<open>Collaborators\<close>

subsection \<open>Responses and payloads of helios-core\<close>

text \<open>
  \<^verbatim>\<open>RestResponseStatus\<close> has the two members the source tests for, and a response carries
  its \<open>data\<close> when the status is \<open>SUCCESS\<close> and its error code when the status is
  \<open>ERROR\<close>; the two are one tagged value here.
\<close>

datatype ('a, 'c) RestResponse = SUCCESS 'a | ERROR 'c

text \<open>
  The error codes of helios-core: the source names \<^verbatim>\<open>MicrosoftErrorCode.UNKNOWN\<close>,
  \<^verbatim>\<open>MojangErrorCode.UNKNOWN\<close> and \<^verbatim>\<open>MojangErrorCode.ERROR_INVALID_CREDENTIALS\<close>; every
  other member of the two enumerations is a numbered \<open>OTHER\<close>.
\<close>

datatype MicrosoftErrorCode = UNKNOWN | OTHER nat

datatype MojangErrorCode = UNKNOWN | ERROR_INVALID_CREDENTIALS | OTHER nat

text \<open>
  What a promise is rejected with. \<^verbatim>\<open>microsoftErrorDisplayable\<close> and
  \<^verbatim>\<open>mojangErrorDisplayable\<close> are functions of helios-core; their applications are kept
  symbolic. \<open>ReferenceError\<close> carries the identifier that has no binding, \<open>TypeError\<close>
  is a property read on \<^verbatim>\<open>undefined\<close>, and \<open>Thrown\<close> is an error that a collaborator
  threw and that no handler of the source caught.
\<close>

datatype rejection =
    microsoftErrorDisplayable MicrosoftErrorCode
  | mojangErrorDisplayable MojangErrorCode
  | ReferenceError string
  | TypeError
  | Thrown

datatype 'a promise = Resolved 'a | Rejected rejection

text \<open>An awaited call of a collaborator either throws or returns its value.\<close>

datatype 'a awaited = Throws | Returns 'a

text \<open>
  The payloads that the source reads fields of: the OAuth token pair
  (\<^verbatim>\<open>access_token\<close>, \<^verbatim>\<open>refresh_token\<close>, \<^verbatim>\<open>expires_in\<close>), the game-service token
  (\<^verbatim>\<open>access_token\<close>, \<^verbatim>\<open>expires_in\<close>) and the profile (\<^verbatim>\<open>id\<close>, \<^verbatim>\<open>name\<close>). The
  XBL and XSTS payloads are only passed on.
\<close>

record MsToken =
  ms_access_token :: string
  ms_refresh_token :: string
  ms_expires_in :: seconds

record McToken =
  mc_access_token :: string
  mc_expires_in :: seconds

record McProfile =
  profile_id :: string
  profile_name :: string

type_synonym XblData = string
type_synonym XstsData = string

text \<open>The result object of \<^verbatim>\<open>client.login\<close> of azuriom-auth, with the fields the source reads.\<close>

record LoginResult =
  status :: string
  requires2fa :: bool
  login_uuid :: string
  login_accessToken :: string
  login_username :: string

subsection \<open>Requirements\<close>

text \<open>
  What the module obtains with \<^verbatim>\<open>require\<close>: the five calls of \<^verbatim>\<open>MicrosoftAuth\<close>, the
  constant \<^verbatim>\<open>AZURE_CLIENT_ID\<close> and the \<^verbatim>\<open>login\<close> method of the \<^verbatim>\<open>AuthClient\<close>. They
  are parameters of the model. \<open>login\<close> takes the optional third argument as an option.
\<close>

record Requirements =
  getAccessToken :: "string \<Rightarrow> bool \<Rightarrow> string \<Rightarrow> (MsToken, MicrosoftErrorCode) RestResponse awaited"
  getXBLToken :: "string \<Rightarrow> (XblData, MicrosoftErrorCode) RestResponse awaited"
  getXSTSToken :: "XblData \<Rightarrow> (XstsData, MicrosoftErrorCode) RestResponse awaited"
  getMCAccessToken :: "XstsData \<Rightarrow> (McToken, MicrosoftErrorCode) RestResponse awaited"
  getMCProfile :: "string \<Rightarrow> (McProfile, MicrosoftErrorCode) RestResponse awaited"
  AZURE_CLIENT_ID :: string
  login :: "string \<Rightarrow> string \<Rightarrow> string option \<Rightarrow> LoginResult awaited"

subsection \<open>Effects\<close>

text \<open>
  Every function of the model returns, beside its result, the list of the effects it had,
  in order: each call of a collaborator with its arguments, each \<^verbatim>\<open>ConfigManager.save()\<close>,
  and each entry into \<^verbatim>\<open>fullMicrosoftAuthFlow\<close> with its mode and entry code.
\<close>

datatype AUTH_MODE = FULL | MS_REFRESH | MC_REFRESH

datatype effect =
    EnterFlow AUTH_MODE string
  | GetAccessToken string bool string
  | GetXBLToken string
  | GetXSTSToken XblData
  | GetMCAccessToken XstsData
  | GetMCProfile string
  | ClientLogin string string "string option"
  | MojangValidate string "string option"
  | MojangRefresh string "string option"
  | ConfigSave

section \<open>fullMicrosoftAuthFlow\<close>

text \<open>
  The object the flow returns. \<open>res_accessToken\<close> is the source's \<^verbatim>\<open>accessToken\<close>, which
  stays unassigned (\<open>None\<close>) in mode \<open>MC_REFRESH\<close>.
\<close>

record FlowResult =
  res_accessToken :: "MsToken option"
  res_accessTokenRaw :: string
  res_xbl :: XblData
  res_xsts :: XstsData
  res_mcToken :: McToken
  res_mcProfile :: McProfile

text \<open>
  The body of the source's \<^verbatim>\<open>try\<close>, step by step; a collaborator that throws lands in the
  \<^verbatim>\<open>catch\<close>, which rejects with \<^verbatim>\<open>microsoftErrorDisplayable(MicrosoftErrorCode.UNKNOWN)\<close>.
  Logging is left out.
\<close>

definition fullMicrosoftAuthFlow ::
  "Requirements \<Rightarrow> string \<Rightarrow> AUTH_MODE \<Rightarrow> FlowResult promise \<times> effect list" where
  "fullMicrosoftAuthFlow q entryCode authMode =
    (let caught = Rejected (microsoftErrorDisplayable MicrosoftErrorCode.UNKNOWN);
         e0 = [EnterFlow authMode entryCode]
     in
     case (if authMode \<noteq> MC_REFRESH
           then (case getAccessToken q entryCode (authMode = MS_REFRESH) (AZURE_CLIENT_ID q) of
                   Throws \<Rightarrow> Inl caught
                 | Returns (ERROR c) \<Rightarrow> Inl (Rejected (microsoftErrorDisplayable c))
                 | Returns (SUCCESS accessToken) \<Rightarrow>
                     Inr (Some accessToken, ms_access_token accessToken),
                 e0 @ [GetAccessToken entryCode (authMode = MS_REFRESH) (AZURE_CLIENT_ID q)])
           else (Inr (None, entryCode), e0)) of
       (Inl rejected, e1) \<Rightarrow> (rejected, e1)
     | (Inr (accessToken, accessTokenRaw), e1) \<Rightarrow>
       (let e2 = e1 @ [GetXBLToken accessTokenRaw] in
        case getXBLToken q accessTokenRaw of
          Throws \<Rightarrow> (caught, e2)
        | Returns (ERROR c) \<Rightarrow> (Rejected (microsoftErrorDisplayable c), e2)
        | Returns (SUCCESS xblData) \<Rightarrow>
          (let e3 = e2 @ [GetXSTSToken xblData] in
           case getXSTSToken q xblData of
             Throws \<Rightarrow> (caught, e3)
           | Returns (ERROR c) \<Rightarrow> (Rejected (microsoftErrorDisplayable c), e3)
           | Returns (SUCCESS xstsData) \<Rightarrow>
             (let e4 = e3 @ [GetMCAccessToken xstsData] in
              case getMCAccessToken q xstsData of
                Throws \<Rightarrow> (caught, e4)
              | Returns (ERROR c) \<Rightarrow> (Rejected (microsoftErrorDisplayable c), e4)
              | Returns (SUCCESS mcTokenData) \<Rightarrow>
                (let e5 = e4 @ [GetMCProfile (mc_access_token mcTokenData)] in
                 case getMCProfile q (mc_access_token mcTokenData) of
                   Throws \<Rightarrow> (caught, e5)
                 | Returns (ERROR c) \<Rightarrow> (Rejected (microsoftErrorDisplayable c), e5)
                 | Returns (SUCCESS mcProfileData) \<Rightarrow>
                     (Resolved \<lparr> res_accessToken = accessToken,
                                 res_accessTokenRaw = accessTokenRaw,
                                 res_xbl = xblData,
                                 res_xsts = xstsData,
                                 res_mcToken = mcTokenData,
                                 res_mcProfile = mcProfileData \<rparr>, e5))))))"

section \<open>The account store\<close>

text \<open>
  The persisted account record, with the fields the source reads and writes:
  \<^verbatim>\<open>current.type\<close>, \<^verbatim>\<open>current.uuid\<close>, \<^verbatim>\<open>current.accessToken\<close>, \<^verbatim>\<open>current.expiresAt\<close>
  and, for a Microsoft account, \<^verbatim>\<open>current.microsoft\<close> with \<^verbatim>\<open>access_token\<close>,
  \<^verbatim>\<open>refresh_token\<close> and \<^verbatim>\<open>expires_at\<close>. A field that a record does not have is
  \<open>None\<close>.
\<close>

record MicrosoftPart =
  access_token :: string
  refresh_token :: string
  expires_at :: instant

record AuthAccount =
  type :: string
  uuid :: string
  accessToken :: string
  username :: string
  displayName :: string
  expiresAt :: "instant option"
  microsoft :: "MicrosoftPart option"

text \<open>
  Modelled from the spec: \<^verbatim>\<open>./configmanager\<close> is not among the sources. The spec gives
  it as the AccountStore, a synchronous key-value store of account records with one
  selected account, and the source adds a client token. \<open>Config\<close> is that store in memory.
\<close>

record Config =
  authenticationDatabase :: "string \<rightharpoonup> AuthAccount"
  selectedAccount :: "string option"
  clientToken :: "string option"

text \<open>
  The world the operations run in: the store in memory and its last saved copy.
\<close>

record world =
  config :: Config
  disk :: Config

text \<open>
  Modelled from the spec: \<^verbatim>\<open>ConfigManager.getSelectedAccount\<close>, the record of the
  selected account, if any.
\<close>

definition getSelectedAccount :: "Config \<Rightarrow> AuthAccount option" where
  "getSelectedAccount c =
    (case selectedAccount c of None \<Rightarrow> None | Some u \<Rightarrow> authenticationDatabase c u)"

text \<open>
  Modelled from the spec: \<^verbatim>\<open>ConfigManager.getClientToken\<close> and
  \<^verbatim>\<open>ConfigManager.setClientToken\<close>, which read and write the client token.
\<close>

definition getClientToken :: "Config \<Rightarrow> string option" where
  "getClientToken c = clientToken c"

definition setClientToken :: "string \<Rightarrow> Config \<Rightarrow> Config" where
  "setClientToken t c = c\<lparr>clientToken := Some t\<rparr>"

text \<open>
  Modelled from the spec: \<^verbatim>\<open>ConfigManager.addMicrosoftAuthAccount\<close>, the AccountStore's
  \<open>addAccount\<close> for a Microsoft record. The arguments are in the order the source passes
  them. The record is stored under its id and becomes the selected account (the spec's
  round trip validates the account just created), and it is returned.
\<close>

definition addMicrosoftAuthAccount ::
  "string \<Rightarrow> string \<Rightarrow> string \<Rightarrow> instant \<Rightarrow> string \<Rightarrow> string \<Rightarrow> instant \<Rightarrow> Config
    \<Rightarrow> AuthAccount \<times> Config" where
  "addMicrosoftAuthAccount uuid' accessToken' name mcExpires msAccessToken msRefreshToken msExpires c =
    (let account = \<lparr> type = ''microsoft'', uuid = uuid', accessToken = accessToken',
                      username = name, displayName = name, expiresAt = Some mcExpires,
                      microsoft = Some \<lparr> access_token = msAccessToken,
                                         refresh_token = msRefreshToken,
                                         expires_at = msExpires \<rparr> \<rparr>
     in (account,
         c\<lparr> authenticationDatabase := (authenticationDatabase c)(uuid' \<mapsto> account),
            selectedAccount := Some uuid' \<rparr>))"

text \<open>
  Modelled from the spec: \<^verbatim>\<open>ConfigManager.addGalaxyQuestAuthAccount\<close>, the AccountStore's
  \<open>addAccount\<close> for a password record, which has no expiry and no provider state. The
  source tells a Microsoft record from any other by the tag \<^verbatim>\<open>'microsoft'\<close> alone; the
  tag of a password record is written \<open>''password''\<close>.
\<close>

definition addGalaxyQuestAuthAccount ::
  "string \<Rightarrow> string \<Rightarrow> string \<Rightarrow> string \<Rightarrow> Config \<Rightarrow> AuthAccount \<times> Config" where
  "addGalaxyQuestAuthAccount uuid' accessToken' username' displayName' c =
    (let account = \<lparr> type = ''password'', uuid = uuid', accessToken = accessToken',
                      username = username', displayName = displayName', expiresAt = None,
                      microsoft = None \<rparr>
     in (account,
         c\<lparr> authenticationDatabase := (authenticationDatabase c)(uuid' \<mapsto> account),
            selectedAccount := Some uuid' \<rparr>))"

text \<open>
  Modelled from the spec: \<^verbatim>\<open>ConfigManager.updateMicrosoftAuthAccount\<close>, the AccountStore's
  \<open>updateAccount\<close> for a Microsoft record: the token fields and the two expiries of the
  record under the id change in place, the identity stays. The arguments are in the
  order the source passes them. An id with no record changes nothing.
\<close>

definition updateMicrosoftAuthAccount ::
  "string \<Rightarrow> string \<Rightarrow> string \<Rightarrow> string \<Rightarrow> instant \<Rightarrow> instant \<Rightarrow> Config \<Rightarrow> Config" where
  "updateMicrosoftAuthAccount uuid' accessToken' msAccessToken msRefreshToken msExpires mcExpires c =
    (case authenticationDatabase c uuid' of
       None \<Rightarrow> c
     | Some account \<Rightarrow>
         c\<lparr> authenticationDatabase := (authenticationDatabase c)(uuid' \<mapsto>
              account\<lparr> accessToken := accessToken',
                       expiresAt := Some mcExpires,
                       microsoft := Some \<lparr> access_token = msAccessToken,
                                           refresh_token = msRefreshToken,
                                           expires_at = msExpires \<rparr> \<rparr>) \<rparr>)"

text \<open>
  Modelled from the spec: \<^verbatim>\<open>ConfigManager.updateMojangAuthAccount\<close>, the AccountStore's
  \<open>updateAccount\<close> for a password record: the stored token changes in place.
\<close>

definition updateMojangAuthAccount :: "string \<Rightarrow> string \<Rightarrow> Config \<Rightarrow> Config" where
  "updateMojangAuthAccount uuid' accessToken' c =
    (case authenticationDatabase c uuid' of
       None \<Rightarrow> c
     | Some account \<Rightarrow>
         c\<lparr> authenticationDatabase := (authenticationDatabase c)(uuid' \<mapsto>
              account\<lparr> accessToken := accessToken' \<rparr>) \<rparr>)"

text \<open>
  Modelled from the spec: \<^verbatim>\<open>ConfigManager.save\<close>, the AccountStore's \<open>persist\<close>: the
  saved copy becomes the store in memory.
\<close>

definition save :: "world \<Rightarrow> world" where
  "save w = w\<lparr>disk := config w\<rparr>"

section \<open>Identifiers without a binding in the module\<close>

text \<open>
  The module uses four identifiers that it neither declares nor requires:
  \<^verbatim>\<open>MojangRestAPI\<close>, \<^verbatim>\<open>mojangErrorDisplayable\<close>, \<^verbatim>\<open>MojangErrorCode\<close> and
  \<^verbatim>\<open>validateSelectedGalaxyquestAccount\<close>. JavaScript resolves such an identifier in the
  global scope when the expression is evaluated and throws a \<open>ReferenceError\<close> when
  no binding is there. The global scope is a parameter of the model: it says, for each of
  the four, whether it is bound, and to what.
\<close>

text \<open>What a validator resolves with: a boolean, or \<^verbatim>\<open>undefined\<close> when the body ends without \<^verbatim>\<open>return\<close>.\<close>

datatype js_value = JSBool bool | JSUndefined

datatype Session = Session (session_accessToken: string)

record MojangRestAPI =
  validate :: "string \<Rightarrow> string option \<Rightarrow> (bool, MojangErrorCode) RestResponse awaited"
  refresh :: "string \<Rightarrow> string option \<Rightarrow> (Session, MojangErrorCode) RestResponse awaited"

record GlobalScope =
  MojangRestAPI :: "MojangRestAPI option"
  mojangErrorDisplayable_bound :: bool
  MojangErrorCode_bound :: bool
  validateSelectedGalaxyquestAccount :: "(world \<Rightarrow> js_value promise \<times> world \<times> effect list) option"

text \<open>
  The scope in which the file is all there is: none of the four identifiers is bound.
\<close>

definition moduleScope :: GlobalScope where
  "moduleScope = \<lparr> MojangRestAPI = None, mojangErrorDisplayable_bound = False,
                    MojangErrorCode_bound = False, validateSelectedGalaxyquestAccount = None \<rparr>"

text \<open>
  Evaluating \<^verbatim>\<open>mojangErrorDisplayable(MojangErrorCode.X)\<close>: the callee is resolved first,
  then the argument. \<open>Inl\<close> is the error thrown, \<open>Inr\<close> the value.
\<close>

definition evalMojangErrorDisplayable :: "GlobalScope \<Rightarrow> MojangErrorCode \<Rightarrow> rejection + rejection" where
  "evalMojangErrorDisplayable g code =
    (if \<not> mojangErrorDisplayable_bound g then Inl (ReferenceError ''mojangErrorDisplayable'')
     else if \<not> MojangErrorCode_bound g then Inl (ReferenceError ''MojangErrorCode'')
     else Inr (mojangErrorDisplayable code))"

section \<open>addGalaxyQuestAccount\<close>

text \<open>
  The \<^verbatim>\<open>catch\<close> of the function: it evaluates
  \<^verbatim>\<open>mojangErrorDisplayable(MojangErrorCode.UNKNOWN)\<close> and rejects with the value, or with the
  error that this evaluation throws.
\<close>

definition addGalaxyQuestAccount_catch :: "GlobalScope \<Rightarrow> AuthAccount promise" where
  "addGalaxyQuestAccount_catch g =
    (case evalMojangErrorDisplayable g MojangErrorCode.UNKNOWN of
       Inl thrown \<Rightarrow> Rejected thrown
     | Inr displayable \<Rightarrow> Rejected displayable)"

text \<open>
  The first \<^verbatim>\<open>login\<close> has no third argument. When its result is pending and requires the
  second factor, the source calls \<^verbatim>\<open>login\<close> again with \<^verbatim>\<open>twoFactorCode\<close>, which is the
  empty string constant.
\<close>

definition addGalaxyQuestAccount ::
  "GlobalScope \<Rightarrow> Requirements \<Rightarrow> string \<Rightarrow> string \<Rightarrow> world
    \<Rightarrow> AuthAccount promise \<times> world \<times> effect list" where
  "addGalaxyQuestAccount g q username' password w =
    (let e1 = [ClientLogin username' password None] in
     case login q username' password None of
       Throws \<Rightarrow> (addGalaxyQuestAccount_catch g, w, e1)
     | Returns first \<Rightarrow>
       (let twoFactorCode = [];
            again = (status first = ''pending'' \<and> requires2fa first);
            e2 = (if again then e1 @ [ClientLogin username' password (Some twoFactorCode)] else e1)
        in
        case (if again then login q username' password (Some twoFactorCode) else Returns first) of
          Throws \<Rightarrow> (addGalaxyQuestAccount_catch g, w, e2)
        | Returns result \<Rightarrow>
            if status result \<noteq> ''success'' then
              (case evalMojangErrorDisplayable g ERROR_INVALID_CREDENTIALS of
                 Inl thrown \<Rightarrow> (addGalaxyQuestAccount_catch g, w, e2)
               | Inr displayable \<Rightarrow> (Rejected displayable, w, e2))
            else
              (let (ret, c1) = addGalaxyQuestAuthAccount (login_uuid result) (login_accessToken result)
                                 (login_username result) (login_username result) (config w);
                   c2 = (if getClientToken c1 = None
                         then setClientToken (login_accessToken result) c1 else c1)
               in (Resolved ret, save (w\<lparr>config := c2\<rparr>), e2 @ [ConfigSave]))))"

section \<open>addMicrosoftAccount\<close>

text \<open>
  The flow is awaited outside any \<^verbatim>\<open>try\<close>: its rejection is the rejection of the
  function. \<open>now\<close> is the clock that \<^verbatim>\<open>new Date().getTime()\<close> reads.
\<close>

definition addMicrosoftAccount ::
  "Requirements \<Rightarrow> string \<Rightarrow> instant \<Rightarrow> world \<Rightarrow> AuthAccount promise \<times> world \<times> effect list" where
  "addMicrosoftAccount q authCode now w =
    (case fullMicrosoftAuthFlow q authCode FULL of
       (Rejected err, es) \<Rightarrow> (Rejected err, w, es)
     | (Resolved fullAuth, es) \<Rightarrow>
       (case res_accessToken fullAuth of
          None \<Rightarrow> (Rejected TypeError, w, es)
        | Some oauth \<Rightarrow>
          (let (ret, c1) = addMicrosoftAuthAccount
                             (profile_id (res_mcProfile fullAuth))
                             (mc_access_token (res_mcToken fullAuth))
                             (profile_name (res_mcProfile fullAuth))
                             (calculateExpiryDate now (mc_expires_in (res_mcToken fullAuth)))
                             (ms_access_token oauth)
                             (ms_refresh_token oauth)
                             (calculateExpiryDate now (ms_expires_in oauth))
                             (config w)
           in (Resolved ret, save (w\<lparr>config := c1\<rparr>), es @ [ConfigSave]))))"

section \<open>The validators\<close>

text \<open>
  \<^verbatim>\<open>validateSelectedMojangAccount\<close>. \<^verbatim>\<open>MojangRestAPI\<close> is resolved before the arguments
  of the call are evaluated. A response whose status is not \<open>SUCCESS\<close> leaves the
  \<^verbatim>\<open>if\<close>, and the body ends without \<^verbatim>\<open>return\<close>.
\<close>

definition validateSelectedMojangAccount ::
  "GlobalScope \<Rightarrow> world \<Rightarrow> js_value promise \<times> world \<times> effect list" where
  "validateSelectedMojangAccount g w =
    (case MojangRestAPI g of
       None \<Rightarrow> (Rejected (ReferenceError ''MojangRestAPI''), w, [])
     | Some api \<Rightarrow>
       (case getSelectedAccount (config w) of
          None \<Rightarrow> (Rejected TypeError, w, [])
        | Some current \<Rightarrow>
          (let e1 = [MojangValidate (accessToken current) (getClientToken (config w))] in
           case validate api (accessToken current) (getClientToken (config w)) of
             Throws \<Rightarrow> (Rejected Thrown, w, e1)
           | Returns (ERROR c) \<Rightarrow> (Resolved JSUndefined, w, e1)
           | Returns (SUCCESS isValid) \<Rightarrow>
               if \<not> isValid then
                 (let e2 = e1 @ [MojangRefresh (accessToken current) (getClientToken (config w))] in
                  case refresh api (accessToken current) (getClientToken (config w)) of
                    Throws \<Rightarrow> (Rejected Thrown, w, e2)
                  | Returns (SUCCESS session) \<Rightarrow>
                      (Resolved (JSBool True),
                       save (w\<lparr>config := updateMojangAuthAccount (uuid current)
                                             (session_accessToken session) (config w)\<rparr>),
                       e2 @ [ConfigSave])
                  | Returns (ERROR c) \<Rightarrow> (Resolved (JSBool False), w, e2))
               else (Resolved (JSBool True), w, e1))))"

text \<open>
  \<^verbatim>\<open>validateSelectedMicrosoftAccount\<close>. \<^verbatim>\<open>now >= undefined\<close> is false, so a record
  without \<^verbatim>\<open>expiresAt\<close> counts as not expired. Each flow runs inside a \<^verbatim>\<open>try\<close> whose
  \<^verbatim>\<open>catch\<close> returns false; the read of \<^verbatim>\<open>res.accessToken.access_token\<close> is inside it too.
\<close>

definition validateSelectedMicrosoftAccount ::
  "Requirements \<Rightarrow> instant \<Rightarrow> world \<Rightarrow> js_value promise \<times> world \<times> effect list" where
  "validateSelectedMicrosoftAccount q now w =
    (case getSelectedAccount (config w) of
       None \<Rightarrow> (Rejected TypeError, w, [])
     | Some current \<Rightarrow>
       (let mcExpired = (case expiresAt current of
                           None \<Rightarrow> False
                         | Some mcExpiresAt \<Rightarrow> now \<ge> mcExpiresAt)
        in
        if \<not> mcExpired then (Resolved (JSBool True), w, [])
        else
          (case microsoft current of
             None \<Rightarrow> (Rejected TypeError, w, [])
           | Some ms \<Rightarrow>
             (let msExpired = (now \<ge> expires_at ms) in
              if msExpired then
                (case fullMicrosoftAuthFlow q (refresh_token ms) MS_REFRESH of
                   (Rejected err, es) \<Rightarrow> (Resolved (JSBool False), w, es)
                 | (Resolved res, es) \<Rightarrow>
                   (case res_accessToken res of
                      None \<Rightarrow> (Resolved (JSBool False), w, es)
                    | Some oauth \<Rightarrow>
                        (Resolved (JSBool True),
                         save (w\<lparr>config := updateMicrosoftAuthAccount
                                   (uuid current)
                                   (mc_access_token (res_mcToken res))
                                   (ms_access_token oauth)
                                   (ms_refresh_token oauth)
                                   (calculateExpiryDate now (ms_expires_in oauth))
                                   (calculateExpiryDate now (mc_expires_in (res_mcToken res)))
                                   (config w)\<rparr>),
                         es @ [ConfigSave])))
              else
                (case fullMicrosoftAuthFlow q (access_token ms) MC_REFRESH of
                   (Rejected err, es) \<Rightarrow> (Resolved (JSBool False), w, es)
                 | (Resolved res, es) \<Rightarrow>
                     (Resolved (JSBool True),
                      save (w\<lparr>config := updateMicrosoftAuthAccount
                                (uuid current)
                                (mc_access_token (res_mcToken res))
                                (access_token ms)
                                (refresh_token ms)
                                (expires_at ms)
                                (calculateExpiryDate now (mc_expires_in (res_mcToken res)))
                                (config w)\<rparr>),
                      es @ [ConfigSave]))))))"

text \<open>
  \<^verbatim>\<open>validateSelected\<close>: a record tagged \<^verbatim>\<open>'microsoft'\<close> goes to the Microsoft validator;
  for any other record the source calls \<^verbatim>\<open>validateSelectedGalaxyquestAccount()\<close>.
\<close>

definition validateSelected ::
  "GlobalScope \<Rightarrow> Requirements \<Rightarrow> instant \<Rightarrow> world \<Rightarrow> js_value promise \<times> world \<times> effect list" where
  "validateSelected g q now w =
    (case getSelectedAccount (config w) of
       None \<Rightarrow> (Rejected TypeError, w, [])
     | Some current \<Rightarrow>
         if type current = ''microsoft'' then validateSelectedMicrosoftAccount q now w
         else
           (case validateSelectedGalaxyquestAccount g of
              None \<Rightarrow> (Rejected (ReferenceError ''validateSelectedGalaxyquestAccount''), w, [])
            | Some f \<Rightarrow> f w))"

section \<open>Reading the effects of a flow\<close>

text \<open>
  The place of a call in the chain of \<^verbatim>\<open>fullMicrosoftAuthFlow\<close>: the OAuth token call is
  step 1, the XBL, XSTS and game-service token calls are steps 2 to 4, the profile call
  is step 5. Any other effect is no step.
\<close>

fun stepNumber :: "effect \<Rightarrow> nat" where
  "stepNumber (GetAccessToken code isRefresh clientId) = 1"
| "stepNumber (GetXBLToken raw) = 2"
| "stepNumber (GetXSTSToken xblData) = 3"
| "stepNumber (GetMCAccessToken xstsData) = 4"
| "stepNumber (GetMCProfile mcAccessToken) = 5"
| "stepNumber other = 0"

text \<open>
  The error a recorded call ends in, read off the collaborator's answer to that call: the
  code of an \<open>ERROR\<close> response, \<open>UNKNOWN\<close> for a call that throws, and none for a
  \<open>SUCCESS\<close> response.
\<close>

fun answerError :: "('a, MicrosoftErrorCode) RestResponse awaited \<Rightarrow> MicrosoftErrorCode option" where
  "answerError Throws = Some MicrosoftErrorCode.UNKNOWN"
| "answerError (Returns (ERROR c)) = Some c"
| "answerError (Returns (SUCCESS payload)) = None"

fun stepError :: "Requirements \<Rightarrow> effect \<Rightarrow> MicrosoftErrorCode option" where
  "stepError q (GetAccessToken code isRefresh clientId) = answerError (getAccessToken q code isRefresh clientId)"
| "stepError q (GetXBLToken raw) = answerError (getXBLToken q raw)"
| "stepError q (GetXSTSToken xblData) = answerError (getXSTSToken q xblData)"
| "stepError q (GetMCAccessToken xstsData) = answerError (getMCAccessToken q xstsData)"
| "stepError q (GetMCProfile mcAccessToken) = answerError (getMCProfile q mcAccessToken)"
| "stepError q other = None"

text \<open>The first step of the chain in a mode: \<open>MC_REFRESH\<close> starts at the XBL call.\<close>

definition firstStep :: "AUTH_MODE \<Rightarrow> nat" where
  "firstStep authMode = (if authMode = MC_REFRESH then 2 else 1)"

text \<open>The entries into \<^verbatim>\<open>fullMicrosoftAuthFlow\<close> among some effects, with mode and entry code.\<close>

fun flowEntry :: "effect \<Rightarrow> (AUTH_MODE \<times> string) option" where
  "flowEntry (EnterFlow authMode entryCode) = Some (authMode, entryCode)"
| "flowEntry other = None"

definition flowEntries :: "effect list \<Rightarrow> (AUTH_MODE \<times> string) list" where
  "flowEntries es = List.map_filter flowEntry es"

text \<open>The calls of the OAuth token endpoint among some effects.\<close>

definition oauthCalls :: "effect list \<Rightarrow> effect list" where
  "oauthCalls es = filter (\<lambda>e. stepNumber e = 1) es"

section \<open>Sample collaborators and stores\<close>

text \<open>
  Collaborators to run the operations on. \<open>sampleRequirements failAt oauthLifetime
  mcLifetime\<close> answers every call of the chain with \<open>SUCCESS\<close>, except the step numbered
  \<open>failAt\<close>, which it answers with \<open>ERROR\<close> and the code \<open>OTHER failAt\<close>; the two
  lifetimes are the \<^verbatim>\<open>expires_in\<close> of the OAuth and of the game-service token. Its
  \<open>login\<close> asks for the second factor and accepts the code \<open>''123456''\<close>.
\<close>

definition sampleLogin :: "string \<Rightarrow> string \<Rightarrow> string option \<Rightarrow> LoginResult awaited" where
  "sampleLogin username' password code =
    (case code of
       None \<Rightarrow> Returns \<lparr> status = ''pending'', requires2fa = True, login_uuid = [],
                          login_accessToken = [], login_username = username' \<rparr>
     | Some c \<Rightarrow>
         if c = ''123456''
         then Returns \<lparr> status = ''success'', requires2fa = False, login_uuid = ''uuid-9'',
                         login_accessToken = ''token-9'', login_username = username' \<rparr>
         else Returns \<lparr> status = ''error'', requires2fa = False, login_uuid = [],
                         login_accessToken = [], login_username = username' \<rparr>)"

definition sampleRequirements :: "nat \<Rightarrow> seconds \<Rightarrow> seconds \<Rightarrow> Requirements" where
  "sampleRequirements failAt oauthLifetime mcLifetime =
    \<lparr> getAccessToken = (\<lambda>code isRefresh clientId.
        if failAt = 1 then Returns (ERROR (MicrosoftErrorCode.OTHER 1))
        else Returns (SUCCESS \<lparr> ms_access_token = ''oauth-2'', ms_refresh_token = ''refresh-2'',
                                ms_expires_in = oauthLifetime \<rparr>)),
      getXBLToken = (\<lambda>raw.
        if failAt = 2 then Returns (ERROR (MicrosoftErrorCode.OTHER 2)) else Returns (SUCCESS ''xbl'')),
      getXSTSToken = (\<lambda>xblData.
        if failAt = 3 then Returns (ERROR (MicrosoftErrorCode.OTHER 3)) else Returns (SUCCESS ''xsts'')),
      getMCAccessToken = (\<lambda>xstsData.
        if failAt = 4 then Returns (ERROR (MicrosoftErrorCode.OTHER 4))
        else Returns (SUCCESS \<lparr> mc_access_token = ''mc-2'', mc_expires_in = mcLifetime \<rparr>)),
      getMCProfile = (\<lambda>mcAccessToken.
        if failAt = 5 then Returns (ERROR (MicrosoftErrorCode.OTHER 5))
        else Returns (SUCCESS \<lparr> profile_id = ''uuid-1'', profile_name = ''Steve'' \<rparr>)),
      AZURE_CLIENT_ID = ''client-id'',
      login = sampleLogin \<rparr>"

text \<open>A \<^verbatim>\<open>MojangRestAPI\<close> whose session-validate call answers with \<open>ERROR\<close>.\<close>

definition sampleMojang :: MojangRestAPI where
  "sampleMojang =
    \<lparr> validate = (\<lambda>token client. Returns (ERROR MojangErrorCode.UNKNOWN)),
      refresh = (\<lambda>token client. Returns (SUCCESS (Session ''token-10''))) \<rparr>"

text \<open>
  A global scope that binds the three names of helios-core, and one that moreover binds
  \<^verbatim>\<open>validateSelectedGalaxyquestAccount\<close> to the password validator of the module.
\<close>

definition boundScope :: GlobalScope where
  "boundScope = \<lparr> MojangRestAPI = Some sampleMojang, mojangErrorDisplayable_bound = True,
                   MojangErrorCode_bound = True, validateSelectedGalaxyquestAccount = None \<rparr>"

definition aliasedScope :: GlobalScope where
  "aliasedScope =
    boundScope\<lparr> validateSelectedGalaxyquestAccount := Some (validateSelectedMojangAccount boundScope) \<rparr>"

text \<open>
  Stores: an empty one, one whose selected account is a password account, and one whose
  selected account is a Microsoft account with the game-service token valid until
  \<open>3591000\<close> and the OAuth token until \<open>86391000\<close>.
\<close>

definition emptyConfig :: Config where
  "emptyConfig = \<lparr> authenticationDatabase = Map.empty, selectedAccount = None, clientToken = None \<rparr>"

definition emptyWorld :: world where
  "emptyWorld = \<lparr> config = emptyConfig, disk = emptyConfig \<rparr>"

definition passwordAccount :: AuthAccount where
  "passwordAccount = \<lparr> type = ''password'', uuid = ''uuid-9'', accessToken = ''token-9'',
                        username = ''alice'', displayName = ''alice'', expiresAt = None,
                        microsoft = None \<rparr>"

definition passwordConfig :: Config where
  "passwordConfig = \<lparr> authenticationDatabase = [''uuid-9'' \<mapsto> passwordAccount],
                       selectedAccount = Some ''uuid-9'', clientToken = Some ''token-9'' \<rparr>"

definition passwordWorld :: world where
  "passwordWorld = \<lparr> config = passwordConfig, disk = passwordConfig \<rparr>"

definition microsoftAccount :: AuthAccount where
  "microsoftAccount = \<lparr> type = ''microsoft'', uuid = ''uuid-1'', accessToken = ''mc-1'',
                         username = ''Steve'', displayName = ''Steve'', expiresAt = Some 3591000,
                         microsoft = Some \<lparr> access_token = ''oauth-1'', refresh_token = ''refresh-1'',
                                            expires_at = 86391000 \<rparr> \<rparr>"

definition microsoftConfig :: Config where
  "microsoftConfig = \<lparr> authenticationDatabase = [''uuid-1'' \<mapsto> microsoftAccount],
                        selectedAccount = Some ''uuid-1'', clientToken = None \<rparr>"

definition microsoftWorld :: world where
  "microsoftWorld = \<lparr> config = microsoftConfig, disk = microsoftConfig \<rparr>"

text \<open>
  The account and the store that \<open>addMicrosoftAccount\<close> makes from the empty store at the
  instant \<open>1000\<close>, when the OAuth token lives 86400 seconds and the game-service token
  3600 seconds.
\<close>

definition createdAccount :: AuthAccount where
  "createdAccount = \<lparr> type = ''microsoft'', uuid = ''uuid-1'', accessToken = ''mc-2'',
                       username = ''Steve'', displayName = ''Steve'', expiresAt = Some 3591000,
                       microsoft = Some \<lparr> access_token = ''oauth-2'', refresh_token = ''refresh-2'',
                                          expires_at = 86391000 \<rparr> \<rparr>"

definition createdConfig :: Config where
  "createdConfig = \<lparr> authenticationDatabase = [''uuid-1'' \<mapsto> createdAccount],
                      selectedAccount = Some ''uuid-1'', clientToken = None \<rparr>"

definition createdWorld :: world where
  "createdWorld = \<lparr> config = createdConfig, disk = createdConfig \<rparr>"

section \<open>Theorems\<close>

subsection \<open>ExpiryPolicy\<close>

text \<open>
  C3, as stated, at a concrete input: the claim says that a lifetime below the margin is
  clamped, so that the result is never before \<open>now\<close>. With \<open>now = 1000\<close> and a
  lifetime of 5 seconds the source returns \<open>1000 + (5 - 10) * 1000 = -4000\<close>, which is
  before \<open>now\<close>.
\<close>

theorem calculateExpiryDate_clamp_counterexample:
  "\<not> (calculateExpiryDate 1000 5 \<ge> 1000) \<and> calculateExpiryDate 1000 5 = - 4000"
  by (simp add: calculateExpiryDate_def)

text \<open>
  C3, amended: for every \<open>now\<close> and every lifetime, the result is \<open>now\<close> plus the
  lifetime less the margin of 10 seconds, taken in milliseconds; nothing is clamped, and
  for a lifetime below the margin the result is strictly before \<open>now\<close>.
\<close>

theorem calculateExpiryDate_margin_no_clamp:
  "calculateExpiryDate now lifetime = now + (lifetime - marginSeconds) * 1000 \<and>
   (lifetime < marginSeconds \<longrightarrow> calculateExpiryDate now lifetime < now)"
  by (simp add: calculateExpiryDate_def marginSeconds_def)

theorem calculateExpiryDate_margin_no_clamp_witness:
  "calculateExpiryDate 1000 5 = 1000 + (5 - marginSeconds) * 1000 \<and>
   (5 < marginSeconds \<and> calculateExpiryDate 1000 5 < 1000)"
  using calculateExpiryDate_margin_no_clamp [of 1000 5]
  by (simp add: marginSeconds_def)

text \<open>
  C7: the function is a pure function of its two arguments (equal arguments give equal
  results); with the lifetime taken in milliseconds, as the implementation does, the
  result is never after \<open>now + lifetime\<close>, and for a lifetime of at least 10 seconds it
  is exactly \<open>now + lifetime - 10\<close> in those units; the spec's example
  \<open>computeExpiry(1000, 3600) = 1000 + 3590000\<close> holds.
\<close>

theorem calculateExpiryDate_bound_and_exact:
  "(now = now' \<and> lifetime = lifetime' \<longrightarrow>
      calculateExpiryDate now lifetime = calculateExpiryDate now' lifetime') \<and>
   calculateExpiryDate now lifetime \<le> now + lifetime * 1000 \<and>
   (lifetime \<ge> 10 \<longrightarrow> calculateExpiryDate now lifetime = now + lifetime * 1000 - 10 * 1000) \<and>
   calculateExpiryDate 1000 3600 = 1000 + 3590000"
  by (simp add: calculateExpiryDate_def)

theorem calculateExpiryDate_bound_and_exact_witness:
  "calculateExpiryDate 1000 3600 = calculateExpiryDate 1000 3600 \<and>
   calculateExpiryDate 1000 3600 \<le> 1000 + 3600 * 1000 \<and>
   (3600::int) \<ge> 10 \<and> calculateExpiryDate 1000 3600 = 1000 + 3600 * 1000 - 10 * 1000 \<and>
   calculateExpiryDate 1000 3600 = 3591000"
  using calculateExpiryDate_bound_and_exact [of 1000 1000 3600 3600]
  by simp

subsection \<open>Unfolding the store and the samples\<close>

lemmas store_defs = getSelectedAccount_def getClientToken_def setClientToken_def
  addMicrosoftAuthAccount_def addGalaxyQuestAuthAccount_def updateMicrosoftAuthAccount_def
  updateMojangAuthAccount_def save_def Let_def

lemmas sample_defs = sampleRequirements_def sampleLogin_def sampleMojang_def boundScope_def
  aliasedScope_def moduleScope_def emptyConfig_def emptyWorld_def passwordAccount_def
  passwordConfig_def passwordWorld_def microsoftAccount_def microsoftConfig_def microsoftWorld_def
  createdAccount_def createdConfig_def createdWorld_def

subsection \<open>Effects and outcome of a flow\<close>

text \<open>
  A flow never saves; it is entered once; in mode \<open>MC_REFRESH\<close> it makes no OAuth call,
  and in the two other modes the OAuth call is the first thing it does.
\<close>

lemma fullMicrosoftAuthFlow_effects:
  assumes "fullMicrosoftAuthFlow q entryCode authMode = (outcome, es)"
  shows "ConfigSave \<notin> set es"
    and "flowEntries es = [(authMode, entryCode)]"
    and "authMode = MC_REFRESH \<Longrightarrow> oauthCalls es = []"
    and "authMode \<noteq> MC_REFRESH \<Longrightarrow>
           take 2 es = [EnterFlow authMode entryCode,
                        GetAccessToken entryCode (authMode = MS_REFRESH) (AZURE_CLIENT_ID q)]"
  using assms
  unfolding fullMicrosoftAuthFlow_def Let_def flowEntries_def oauthCalls_def List.map_filter_def
  by (auto split: awaited.splits RestResponse.splits if_splits)

text \<open>A flow is rejected exactly when one of the calls it made ended in an error.\<close>

lemma fullMicrosoftAuthFlow_step_errors:
  assumes "fullMicrosoftAuthFlow q entryCode authMode = (outcome, es)"
  shows "case outcome of
           Rejected r \<Rightarrow> (\<exists>e \<in> set es. stepError q e \<noteq> None)
         | Resolved res \<Rightarrow> (\<forall>e \<in> set es. stepError q e = None)"
  using assms
  unfolding fullMicrosoftAuthFlow_def Let_def
  by (auto split: awaited.splits RestResponse.splits if_splits)

lemma fullMicrosoftAuthFlow_MS_REFRESH_token:
  "fullMicrosoftAuthFlow q entryCode MS_REFRESH = (Resolved res, es) \<Longrightarrow> res_accessToken res \<noteq> None"
  unfolding fullMicrosoftAuthFlow_def Let_def
  by (auto split: awaited.splits RestResponse.splits if_splits)

subsection \<open>The chain of fullMicrosoftAuthFlow\<close>

text \<open>
  C6: the effects of a flow are its entry followed by calls of the chain in their order,
  starting at the OAuth call, or at the XBL call in mode \<open>MC_REFRESH\<close>, with none left
  out; every call but the last was answered with \<open>SUCCESS\<close>. When the flow is rejected,
  the last call made is the one that failed, and the rejection is
  \<^verbatim>\<open>microsoftErrorDisplayable\<close> of that very step's code. When the flow resolves, every
  call of the chain was made, each on the payload of the one before, and the result holds
  the five payloads; its OAuth pair is absent in mode \<open>MC_REFRESH\<close> and is the payload
  of the OAuth call otherwise.
\<close>

theorem fullMicrosoftAuthFlow_short_circuit:
  "case fullMicrosoftAuthFlow q entryCode authMode of
     (outcome, es) \<Rightarrow>
       hd es = EnterFlow authMode entryCode \<and>
       map stepNumber (tl es) = take (length (tl es)) (drop (firstStep authMode - 1) [1, 2, 3, 4, 5]) \<and>
       (\<forall>e \<in> set (butlast es). stepError q e = None) \<and>
       (case outcome of
          Rejected r \<Rightarrow>
            tl es \<noteq> [] \<and> (\<exists>c. stepError q (last es) = Some c \<and> r = microsoftErrorDisplayable c)
        | Resolved res \<Rightarrow>
            stepError q (last es) = None \<and>
            length (tl es) = 6 - firstStep authMode \<and>
            (if authMode = MC_REFRESH
             then res_accessToken res = None \<and> res_accessTokenRaw res = entryCode
             else \<exists>t. getAccessToken q entryCode (authMode = MS_REFRESH) (AZURE_CLIENT_ID q) = Returns (SUCCESS t)
                      \<and> res_accessToken res = Some t \<and> res_accessTokenRaw res = ms_access_token t) \<and>
            getXBLToken q (res_accessTokenRaw res) = Returns (SUCCESS (res_xbl res)) \<and>
            getXSTSToken q (res_xbl res) = Returns (SUCCESS (res_xsts res)) \<and>
            getMCAccessToken q (res_xsts res) = Returns (SUCCESS (res_mcToken res)) \<and>
            getMCProfile q (mc_access_token (res_mcToken res)) = Returns (SUCCESS (res_mcProfile res)))"
  unfolding fullMicrosoftAuthFlow_def firstStep_def Let_def
  by (auto split: awaited.splits RestResponse.splits)

theorem fullMicrosoftAuthFlow_short_circuit_witness:
  "fullMicrosoftAuthFlow (sampleRequirements 3 3600 86400) ''code'' FULL =
     (Rejected (microsoftErrorDisplayable (MicrosoftErrorCode.OTHER 3)),
      [EnterFlow FULL ''code'', GetAccessToken ''code'' False ''client-id'',
       GetXBLToken ''oauth-2'', GetXSTSToken ''xbl'']) \<and>
   stepError (sampleRequirements 3 3600 86400) (GetXBLToken ''oauth-2'') = None \<and>
   stepError (sampleRequirements 3 3600 86400) (GetXSTSToken ''xbl'') = Some (MicrosoftErrorCode.OTHER 3) \<and>
   fullMicrosoftAuthFlow (sampleRequirements 0 3600 86400) ''tok'' MC_REFRESH =
     (Resolved \<lparr> res_accessToken = None, res_accessTokenRaw = ''tok'',
                 res_xbl = ''xbl'', res_xsts = ''xsts'',
                 res_mcToken = \<lparr> mc_access_token = ''mc-2'', mc_expires_in = 86400 \<rparr>,
                 res_mcProfile = \<lparr> profile_id = ''uuid-1'', profile_name = ''Steve'' \<rparr> \<rparr>,
      [EnterFlow MC_REFRESH ''tok'', GetXBLToken ''tok'', GetXSTSToken ''xbl'',
       GetMCAccessToken ''xsts'', GetMCProfile ''mc-2'']) \<and>
   fullMicrosoftAuthFlow (sampleRequirements 0 3600 86400) ''refresh-1'' MS_REFRESH =
     (Resolved \<lparr> res_accessToken = Some \<lparr> ms_access_token = ''oauth-2'',
                                          ms_refresh_token = ''refresh-2'',
                                          ms_expires_in = 3600 \<rparr>,
                 res_accessTokenRaw = ''oauth-2'',
                 res_xbl = ''xbl'', res_xsts = ''xsts'',
                 res_mcToken = \<lparr> mc_access_token = ''mc-2'', mc_expires_in = 86400 \<rparr>,
                 res_mcProfile = \<lparr> profile_id = ''uuid-1'', profile_name = ''Steve'' \<rparr> \<rparr>,
      [EnterFlow MS_REFRESH ''refresh-1'', GetAccessToken ''refresh-1'' True ''client-id'',
       GetXBLToken ''oauth-2'', GetXSTSToken ''xbl'', GetMCAccessToken ''xsts'',
       GetMCProfile ''mc-2''])"
  using fullMicrosoftAuthFlow_short_circuit
          [where q = "sampleRequirements 3 3600 86400" and entryCode = "''code''" and authMode = FULL]
        fullMicrosoftAuthFlow_short_circuit
          [where q = "sampleRequirements 0 3600 86400" and entryCode = "''tok''" and authMode = MC_REFRESH]
        fullMicrosoftAuthFlow_short_circuit
          [where q = "sampleRequirements 0 3600 86400" and entryCode = "''refresh-1''" and authMode = MS_REFRESH]
  by (simp add: fullMicrosoftAuthFlow_def sampleRequirements_def)

subsection \<open>Validation of a Microsoft account\<close>

text \<open>
  C1: in every run of the Microsoft validator, if one of the calls of the chain ended in
  an error, then the validator resolves to false, the store in memory and its saved copy
  are what they were, and nothing was saved. And if the store or its saved copy changed,
  or a save happened, then the validator resolves to true and the effects before the save
  are those of a flow that resolved: the whole chain succeeded.
\<close>

theorem validateSelectedMicrosoftAccount_failure_keeps_store:
  "case validateSelectedMicrosoftAccount q now w of
     (outcome, w', es) \<Rightarrow>
       ((\<exists>e \<in> set es. stepError q e \<noteq> None) \<longrightarrow>
          outcome = Resolved (JSBool False) \<and> w' = w \<and> ConfigSave \<notin> set es) \<and>
       ((w' \<noteq> w \<or> ConfigSave \<in> set es) \<longrightarrow>
          outcome = Resolved (JSBool True) \<and>
          (\<exists>entryCode authMode res.
             fullMicrosoftAuthFlow q entryCode authMode = (Resolved res, butlast es)))"
proof (cases "getSelectedAccount (config w)")
  case None
  then show ?thesis by (simp add: validateSelectedMicrosoftAccount_def)
next
  case (Some current)
  note sel = Some
  show ?thesis
  proof (cases "case expiresAt current of None \<Rightarrow> False | Some mcExpiresAt \<Rightarrow> now \<ge> mcExpiresAt")
    case False
    with sel show ?thesis by (simp add: validateSelectedMicrosoftAccount_def)
  next
    case True
    note expired = True
    show ?thesis
    proof (cases "microsoft current")
      case None
      with sel expired show ?thesis by (simp add: validateSelectedMicrosoftAccount_def)
    next
      case (Some ms)
      note ms = Some
      show ?thesis
      proof (cases "now \<ge> expires_at ms")
        case True
        obtain out fs where f: "fullMicrosoftAuthFlow q (refresh_token ms) MS_REFRESH = (out, fs)"
          by (cases "fullMicrosoftAuthFlow q (refresh_token ms) MS_REFRESH")
        show ?thesis
        proof (cases out)
          case (Rejected r)
          with sel expired ms True f fullMicrosoftAuthFlow_effects(1)[OF f] show ?thesis
            by (simp add: validateSelectedMicrosoftAccount_def)
        next
          case (Resolved res)
          from fullMicrosoftAuthFlow_MS_REFRESH_token f Resolved
          obtain oauth where "res_accessToken res = Some oauth"
            by blast
          with Resolved sel expired ms True f fullMicrosoftAuthFlow_effects(1)[OF f]
            fullMicrosoftAuthFlow_step_errors[OF f]
          show ?thesis
            by (auto simp add: validateSelectedMicrosoftAccount_def)
        qed
      next
        case False
        obtain out fs where f: "fullMicrosoftAuthFlow q (access_token ms) MC_REFRESH = (out, fs)"
          by (cases "fullMicrosoftAuthFlow q (access_token ms) MC_REFRESH")
        show ?thesis
        proof (cases out)
          case (Rejected r)
          with sel expired ms False f fullMicrosoftAuthFlow_effects(1)[OF f] show ?thesis
            by (simp add: validateSelectedMicrosoftAccount_def)
        next
          case (Resolved res)
          with sel expired ms False f fullMicrosoftAuthFlow_effects(1)[OF f]
            fullMicrosoftAuthFlow_step_errors[OF f]
          show ?thesis
            by (auto simp add: validateSelectedMicrosoftAccount_def)
        qed
      qed
    qed
  qed
qed

theorem validateSelectedMicrosoftAccount_failure_keeps_store_witness:
  "validateSelectedMicrosoftAccount (sampleRequirements 3 86400 3600) 90000000 microsoftWorld =
     (Resolved (JSBool False), microsoftWorld,
      [EnterFlow MS_REFRESH ''refresh-1'', GetAccessToken ''refresh-1'' True ''client-id'',
       GetXBLToken ''oauth-2'', GetXSTSToken ''xbl'']) \<and>
   stepError (sampleRequirements 3 86400 3600) (GetXSTSToken ''xbl'') \<noteq> None \<and>
   fst (validateSelectedMicrosoftAccount (sampleRequirements 0 86400 3600) 90000000 microsoftWorld) =
     Resolved (JSBool True) \<and>
   ConfigSave \<in> set (snd (snd (validateSelectedMicrosoftAccount (sampleRequirements 0 86400 3600)
                                   90000000 microsoftWorld)))"
  using validateSelectedMicrosoftAccount_failure_keeps_store
          [where q = "sampleRequirements 3 86400 3600" and now = 90000000 and w = microsoftWorld]
        validateSelectedMicrosoftAccount_failure_keeps_store
          [where q = "sampleRequirements 0 86400 3600" and now = 90000000 and w = microsoftWorld]
  by (simp add: validateSelectedMicrosoftAccount_def fullMicrosoftAuthFlow_def sample_defs store_defs)

text \<open>
  C2: for a selected Microsoft account whose game-service token is expired, the validator
  enters the flow exactly once. When the OAuth token is expired too, the entry is in mode
  \<open>MS_REFRESH\<close> with the stored refresh token, and the first call is the OAuth token
  call on that refresh token. When the OAuth token is still valid, the entry is in mode
  \<open>MC_REFRESH\<close> with the stored OAuth access token, and no OAuth token call is made.
\<close>

theorem validateSelectedMicrosoftAccount_refresh_strategy:
  assumes "getSelectedAccount (config w) = Some current"
      and "expiresAt current = Some mcExpiresAt" and "now \<ge> mcExpiresAt"
      and "microsoft current = Some ms"
  shows "case validateSelectedMicrosoftAccount q now w of
           (outcome, w', es) \<Rightarrow>
             if now \<ge> expires_at ms
             then flowEntries es = [(MS_REFRESH, refresh_token ms)] \<and>
                  take 2 es = [EnterFlow MS_REFRESH (refresh_token ms),
                               GetAccessToken (refresh_token ms) True (AZURE_CLIENT_ID q)]
             else flowEntries es = [(MC_REFRESH, access_token ms)] \<and> oauthCalls es = []"
proof (cases "now \<ge> expires_at ms")
  case True
  obtain out fs where f: "fullMicrosoftAuthFlow q (refresh_token ms) MS_REFRESH = (out, fs)"
    by (cases "fullMicrosoftAuthFlow q (refresh_token ms) MS_REFRESH")
  from fullMicrosoftAuthFlow_effects(4)[OF f] have "length fs \<ge> 2"
    by (cases fs; cases "tl fs") auto
  with assms True f fullMicrosoftAuthFlow_effects(2)[OF f] fullMicrosoftAuthFlow_effects(4)[OF f]
  show ?thesis
    by (auto simp add: validateSelectedMicrosoftAccount_def flowEntries_def List.map_filter_def
             split: promise.splits option.splits)
next
  case False
  obtain out fs where f: "fullMicrosoftAuthFlow q (access_token ms) MC_REFRESH = (out, fs)"
    by (cases "fullMicrosoftAuthFlow q (access_token ms) MC_REFRESH")
  with assms False f fullMicrosoftAuthFlow_effects(2)[OF f] fullMicrosoftAuthFlow_effects(3)[OF f]
  show ?thesis
    by (auto simp add: validateSelectedMicrosoftAccount_def flowEntries_def oauthCalls_def
             List.map_filter_def split: promise.splits option.splits)
qed

theorem validateSelectedMicrosoftAccount_refresh_strategy_witness:
  "getSelectedAccount (config microsoftWorld) = Some microsoftAccount \<and>
   expiresAt microsoftAccount = Some 3591000 \<and>
   microsoft microsoftAccount =
     Some \<lparr> access_token = ''oauth-1'', refresh_token = ''refresh-1'', expires_at = 86391000 \<rparr> \<and>
   snd (snd (validateSelectedMicrosoftAccount (sampleRequirements 0 86400 3600) 90000000 microsoftWorld)) =
     [EnterFlow MS_REFRESH ''refresh-1'', GetAccessToken ''refresh-1'' True ''client-id'',
      GetXBLToken ''oauth-2'', GetXSTSToken ''xbl'', GetMCAccessToken ''xsts'', GetMCProfile ''mc-2'',
      ConfigSave] \<and>
   snd (snd (validateSelectedMicrosoftAccount (sampleRequirements 0 86400 3600) 4000000 microsoftWorld)) =
     [EnterFlow MC_REFRESH ''oauth-1'', GetXBLToken ''oauth-1'', GetXSTSToken ''xbl'',
      GetMCAccessToken ''xsts'', GetMCProfile ''mc-2'', ConfigSave]"
  using validateSelectedMicrosoftAccount_refresh_strategy
          [where w = microsoftWorld and current = microsoftAccount and mcExpiresAt = 3591000
             and now = 90000000 and q = "sampleRequirements 0 86400 3600"
             and ms = "\<lparr> access_token = ''oauth-1'', refresh_token = ''refresh-1'',
                         expires_at = 86391000 \<rparr>"]
        validateSelectedMicrosoftAccount_refresh_strategy
          [where w = microsoftWorld and current = microsoftAccount and mcExpiresAt = 3591000
             and now = 4000000 and q = "sampleRequirements 0 86400 3600"
             and ms = "\<lparr> access_token = ''oauth-1'', refresh_token = ''refresh-1'',
                         expires_at = 86391000 \<rparr>"]
  by (simp add: validateSelectedMicrosoftAccount_def fullMicrosoftAuthFlow_def sample_defs store_defs)

subsection \<open>Creating a Microsoft account, then validating it\<close>

text \<open>
  What a successful \<open>addMicrosoftAccount\<close> leaves: the flow in mode \<open>FULL\<close> resolved, and
  the record made from its result is the selected account, saved, with both expiries
  computed by \<open>calculateExpiryDate\<close> from the instant of creation.
\<close>

lemma addMicrosoftAccount_selects:
  assumes "addMicrosoftAccount q authCode createdAt w = (Resolved account, w', es)"
  shows "\<exists>fullAuth oauth.
           fullMicrosoftAuthFlow q authCode FULL = (Resolved fullAuth, butlast es) \<and>
           res_accessToken fullAuth = Some oauth \<and>
           getSelectedAccount (config w') = Some account \<and>
           disk w' = config w' \<and>
           type account = ''microsoft'' \<and>
           expiresAt account = Some (calculateExpiryDate createdAt (mc_expires_in (res_mcToken fullAuth))) \<and>
           microsoft account = Some \<lparr> access_token = ms_access_token oauth,
                                       refresh_token = ms_refresh_token oauth,
                                       expires_at = calculateExpiryDate createdAt (ms_expires_in oauth) \<rparr>"
  using assms
  by (auto simp add: addMicrosoftAccount_def store_defs split: prod.splits promise.splits option.splits)

text \<open>
  C8, as stated, at a concrete input: the collaborators answer every call with
  \<open>SUCCESS\<close> and give both tokens a lifetime of 5 seconds. The account created at the
  instant \<open>1000\<close> is stamped with the expiry \<open>-4000\<close>, so validating it at the same
  instant \<open>1000\<close> finds it expired and runs a whole flow in mode \<open>MS_REFRESH\<close>: six
  effects on the network, then a save. And when the OAuth endpoint fails at that moment,
  the validation resolves to false.
\<close>

theorem round_trip_short_lifetime_counterexample:
  "fst (addMicrosoftAccount (sampleRequirements 0 5 5) ''code'' 1000 emptyWorld) =
     Resolved \<lparr> type = ''microsoft'', uuid = ''uuid-1'', accessToken = ''mc-2'',
                 username = ''Steve'', displayName = ''Steve'', expiresAt = Some (- 4000),
                 microsoft = Some \<lparr> access_token = ''oauth-2'', refresh_token = ''refresh-2'',
                                    expires_at = - 4000 \<rparr> \<rparr> \<and>
   snd (snd (validateSelectedMicrosoftAccount (sampleRequirements 0 5 5) 1000
               (fst (snd (addMicrosoftAccount (sampleRequirements 0 5 5) ''code'' 1000 emptyWorld))))) =
     [EnterFlow MS_REFRESH ''refresh-2'', GetAccessToken ''refresh-2'' True ''client-id'',
      GetXBLToken ''oauth-2'', GetXSTSToken ''xbl'', GetMCAccessToken ''xsts'', GetMCProfile ''mc-2'',
      ConfigSave] \<and>
   validateSelectedMicrosoftAccount (sampleRequirements 1 5 5) 1000
       (fst (snd (addMicrosoftAccount (sampleRequirements 0 5 5) ''code'' 1000 emptyWorld))) =
     (Resolved (JSBool False),
      fst (snd (addMicrosoftAccount (sampleRequirements 0 5 5) ''code'' 1000 emptyWorld)),
      [EnterFlow MS_REFRESH ''refresh-2'', GetAccessToken ''refresh-2'' True ''client-id''])"
  by (simp add: addMicrosoftAccount_def validateSelectedMicrosoftAccount_def fullMicrosoftAuthFlow_def
        calculateExpiryDate_def sample_defs store_defs)

text \<open>
  C8, amended: for every account created by a successful flow in mode \<open>FULL\<close>, validating
  the selected account at any instant before the stamped game-service expiry, which is the
  instant of creation plus the lifetime less 10 seconds, resolves to true with no effect
  at all (no network call, no save, the store as it was), whatever the collaborators would
  answer; when the lifetime of the game-service token exceeds the margin of 10 seconds,
  the instant of creation itself is such an instant.
\<close>

theorem round_trip_before_stamped_expiry:
  assumes add: "addMicrosoftAccount q authCode createdAt w = (Resolved account, w', es)"
      and flow: "fst (fullMicrosoftAuthFlow q authCode FULL) = Resolved fullAuth"
  shows "(validatedAt < calculateExpiryDate createdAt (mc_expires_in (res_mcToken fullAuth)) \<longrightarrow>
            validateSelected g q' validatedAt w' = (Resolved (JSBool True), w', []) \<and>
            validateSelectedMicrosoftAccount q' validatedAt w' = (Resolved (JSBool True), w', [])) \<and>
         (marginSeconds < mc_expires_in (res_mcToken fullAuth) \<longrightarrow>
            validateSelected g q' createdAt w' = (Resolved (JSBool True), w', []) \<and>
            validateSelectedMicrosoftAccount q' createdAt w' = (Resolved (JSBool True), w', []))"
proof -
  from addMicrosoftAccount_selects [OF add] flow
  have sel: "getSelectedAccount (config w') = Some account"
    and ty: "type account = ''microsoft''"
    and ex: "expiresAt account = Some (calculateExpiryDate createdAt (mc_expires_in (res_mcToken fullAuth)))"
    by auto
  have fast: "validateSelected g q' t w' = (Resolved (JSBool True), w', []) \<and>
              validateSelectedMicrosoftAccount q' t w' = (Resolved (JSBool True), w', [])"
    if "t < calculateExpiryDate createdAt (mc_expires_in (res_mcToken fullAuth))" for t
    using that sel ty ex
    by (simp add: validateSelected_def validateSelectedMicrosoftAccount_def)
  have "createdAt < calculateExpiryDate createdAt (mc_expires_in (res_mcToken fullAuth))"
    if "marginSeconds < mc_expires_in (res_mcToken fullAuth)"
    using that by (simp add: calculateExpiryDate_def marginSeconds_def)
  with fast show ?thesis by blast
qed

theorem round_trip_before_stamped_expiry_witness:
  "addMicrosoftAccount (sampleRequirements 0 86400 3600) ''code'' 1000 emptyWorld =
     (Resolved createdAccount, createdWorld,
      [EnterFlow FULL ''code'', GetAccessToken ''code'' False ''client-id'', GetXBLToken ''oauth-2'',
       GetXSTSToken ''xbl'', GetMCAccessToken ''xsts'', GetMCProfile ''mc-2'', ConfigSave]) \<and>
   fst (fullMicrosoftAuthFlow (sampleRequirements 0 86400 3600) ''code'' FULL) =
     Resolved \<lparr> res_accessToken = Some \<lparr> ms_access_token = ''oauth-2'',
                                          ms_refresh_token = ''refresh-2'', ms_expires_in = 86400 \<rparr>,
                 res_accessTokenRaw = ''oauth-2'', res_xbl = ''xbl'', res_xsts = ''xsts'',
                 res_mcToken = \<lparr> mc_access_token = ''mc-2'', mc_expires_in = 3600 \<rparr>,
                 res_mcProfile = \<lparr> profile_id = ''uuid-1'', profile_name = ''Steve'' \<rparr> \<rparr> \<and>
   (2000::int) < calculateExpiryDate 1000 3600 \<and>
   marginSeconds < 3600 \<and>
   validateSelected moduleScope (sampleRequirements 1 5 5) 2000 createdWorld =
     (Resolved (JSBool True), createdWorld, []) \<and>
   validateSelectedMicrosoftAccount (sampleRequirements 1 5 5) 2000 createdWorld =
     (Resolved (JSBool True), createdWorld, []) \<and>
   validateSelected moduleScope (sampleRequirements 1 5 5) 1000 createdWorld =
     (Resolved (JSBool True), createdWorld, []) \<and>
   validateSelectedMicrosoftAccount (sampleRequirements 1 5 5) 1000 createdWorld =
     (Resolved (JSBool True), createdWorld, [])"
  using round_trip_before_stamped_expiry
          [where q = "sampleRequirements 0 86400 3600" and authCode = "''code''" and createdAt = 1000
             and w = emptyWorld and account = createdAccount and w' = createdWorld
             and es = "[EnterFlow FULL ''code'', GetAccessToken ''code'' False ''client-id'',
                        GetXBLToken ''oauth-2'', GetXSTSToken ''xbl'', GetMCAccessToken ''xsts'',
                        GetMCProfile ''mc-2'', ConfigSave]"
             and fullAuth = "\<lparr> res_accessToken = Some \<lparr> ms_access_token = ''oauth-2'',
                                          ms_refresh_token = ''refresh-2'', ms_expires_in = 86400 \<rparr>,
                 res_accessTokenRaw = ''oauth-2'', res_xbl = ''xbl'', res_xsts = ''xsts'',
                 res_mcToken = \<lparr> mc_access_token = ''mc-2'', mc_expires_in = 3600 \<rparr>,
                 res_mcProfile = \<lparr> profile_id = ''uuid-1'', profile_name = ''Steve'' \<rparr> \<rparr>"
             and validatedAt = 2000 and g = moduleScope and q' = "sampleRequirements 1 5 5"]
  by (simp add: addMicrosoftAccount_def fullMicrosoftAuthFlow_def calculateExpiryDate_def
        marginSeconds_def sample_defs store_defs)

subsection \<open>The expiries that are written\<close>

text \<open>A record that \<open>updateMicrosoftAuthAccount\<close> changed holds the two expiries it was given.\<close>

lemma updateMicrosoftAuthAccount_written:
  assumes "authenticationDatabase (updateMicrosoftAuthAccount u t a r msExpires mcExpires c) k = Some x"
      and "authenticationDatabase c k \<noteq> Some x"
  shows "k = u \<and> expiresAt x = Some mcExpires \<and>
         microsoft x = Some \<lparr> access_token = a, refresh_token = r, expires_at = msExpires \<rparr>"
  using assms
  by (auto simp add: updateMicrosoftAuthAccount_def split: option.splits if_splits)

text \<open>
  What \<open>addMicrosoftAccount\<close> writes: nothing when it is rejected; when it resolves, the
  store in memory is the one before with the new record under its id, selected, and the
  save that ends the effects makes the saved copy that very store.
\<close>

lemma addMicrosoftAccount_writes:
  assumes "addMicrosoftAccount q authCode now w = (created, w', es)"
  shows "case created of
           Rejected r \<Rightarrow> w' = w \<and> ConfigSave \<notin> set es
         | Resolved account \<Rightarrow>
             last es = ConfigSave \<and> disk w' = config w' \<and>
             selectedAccount (config w') = Some (uuid account) \<and>
             authenticationDatabase (config w') =
               (authenticationDatabase (config w))(uuid account \<mapsto> account)"
proof -
  obtain out fs where f: "fullMicrosoftAuthFlow q authCode FULL = (out, fs)"
    by (cases "fullMicrosoftAuthFlow q authCode FULL")
  from assms f fullMicrosoftAuthFlow_effects(1)[OF f] show ?thesis
    by (auto simp add: addMicrosoftAccount_def store_defs split: promise.splits option.splits)
qed

text \<open>
  What the Microsoft validator writes: either nothing at all, or, after a flow that
  resolved, the update of the selected record followed by the save, which are the last
  things it does.
\<close>

lemma validateSelectedMicrosoftAccount_writes:
  assumes v: "validateSelectedMicrosoftAccount q now w = (outcome, w', es)"
  shows "(w' = w \<and> ConfigSave \<notin> set es) \<or>
         (\<exists>current ms res fs.
            getSelectedAccount (config w) = Some current \<and> microsoft current = Some ms \<and>
            es = fs @ [ConfigSave] \<and>
            (if now \<ge> expires_at ms
             then fullMicrosoftAuthFlow q (refresh_token ms) MS_REFRESH = (Resolved res, fs) \<and>
                  (\<exists>oauth. res_accessToken res = Some oauth \<and>
                     w' = save (w\<lparr>config := updateMicrosoftAuthAccount (uuid current)
                            (mc_access_token (res_mcToken res))
                            (ms_access_token oauth) (ms_refresh_token oauth)
                            (calculateExpiryDate now (ms_expires_in oauth))
                            (calculateExpiryDate now (mc_expires_in (res_mcToken res))) (config w)\<rparr>))
             else fullMicrosoftAuthFlow q (access_token ms) MC_REFRESH = (Resolved res, fs) \<and>
                  w' = save (w\<lparr>config := updateMicrosoftAuthAccount (uuid current)
                         (mc_access_token (res_mcToken res))
                         (access_token ms) (refresh_token ms) (expires_at ms)
                         (calculateExpiryDate now (mc_expires_in (res_mcToken res))) (config w)\<rparr>)))"
proof (cases "getSelectedAccount (config w)")
  case None
  with v show ?thesis by (simp add: validateSelectedMicrosoftAccount_def)
next
  case (Some current)
  note sel = Some
  show ?thesis
  proof (cases "case expiresAt current of None \<Rightarrow> False | Some mcExpiresAt \<Rightarrow> now \<ge> mcExpiresAt")
    case False
    with v sel show ?thesis by (simp add: validateSelectedMicrosoftAccount_def)
  next
    case True
    note expired = True
    show ?thesis
    proof (cases "microsoft current")
      case None
      with v sel expired show ?thesis by (simp add: validateSelectedMicrosoftAccount_def)
    next
      case (Some ms)
      note ms = Some
      show ?thesis
      proof (cases "now \<ge> expires_at ms")
        case True
        obtain out fs where f: "fullMicrosoftAuthFlow q (refresh_token ms) MS_REFRESH = (out, fs)"
          by (cases "fullMicrosoftAuthFlow q (refresh_token ms) MS_REFRESH")
        show ?thesis
        proof (cases out)
          case (Rejected r)
          with v sel expired ms True f fullMicrosoftAuthFlow_effects(1)[OF f] show ?thesis
            by (simp add: validateSelectedMicrosoftAccount_def)
        next
          case (Resolved res)
          from fullMicrosoftAuthFlow_MS_REFRESH_token f Resolved
          obtain oauth where tok: "res_accessToken res = Some oauth"
            by blast
          from v sel expired ms True f Resolved tok
          have "es = fs @ [ConfigSave]"
            and "w' = save (w\<lparr>config := updateMicrosoftAuthAccount (uuid current)
                            (mc_access_token (res_mcToken res))
                            (ms_access_token oauth) (ms_refresh_token oauth)
                            (calculateExpiryDate now (ms_expires_in oauth))
                            (calculateExpiryDate now (mc_expires_in (res_mcToken res))) (config w)\<rparr>)"
            by (simp_all add: validateSelectedMicrosoftAccount_def)
          with sel ms True f Resolved tok show ?thesis
            by (intro disjI2 exI[of _ current] exI[of _ ms] exI[of _ res] exI[of _ fs]) simp
        qed
      next
        case False
        obtain out fs where f: "fullMicrosoftAuthFlow q (access_token ms) MC_REFRESH = (out, fs)"
          by (cases "fullMicrosoftAuthFlow q (access_token ms) MC_REFRESH")
        show ?thesis
        proof (cases out)
          case (Rejected r)
          with v sel expired ms False f fullMicrosoftAuthFlow_effects(1)[OF f] show ?thesis
            by (simp add: validateSelectedMicrosoftAccount_def)
        next
          case (Resolved res)
          from v sel expired ms False f Resolved
          have "es = fs @ [ConfigSave]"
            and "w' = save (w\<lparr>config := updateMicrosoftAuthAccount (uuid current)
                         (mc_access_token (res_mcToken res))
                         (access_token ms) (refresh_token ms) (expires_at ms)
                         (calculateExpiryDate now (mc_expires_in (res_mcToken res))) (config w)\<rparr>)"
            by (simp_all add: validateSelectedMicrosoftAccount_def)
          with sel ms False f Resolved show ?thesis
            by (intro disjI2 exI[of _ current] exI[of _ ms] exI[of _ res] exI[of _ fs]) simp
        qed
      qed
    qed
  qed
qed

text \<open>
  C9: about the store in memory and about its saved copy, which is what is persisted.

  \<open>addMicrosoftAccount\<close>: when it is rejected it writes nothing and does not save. When
  it resolves, it ends with a save, the saved copy is the store in memory, and the saved
  records are those that were in memory before with the new record under its id, selected;
  the \<^verbatim>\<open>expiresAt\<close> and \<^verbatim>\<open>microsoft.expires_at\<close> of the new record are
  \<open>calculateExpiryDate\<close> of the clock and of the \<^verbatim>\<open>expires_in\<close> of the game-service
  token and of the OAuth token that the flow returned.

  The Microsoft validator: when it saves, the saved copy is the store in memory, and when
  it does not, memory and saved copy are what they were. Every record that is in memory
  or in the saved copy afterwards and was not there before is the selected one, written
  after a flow that resolved and saved as it is in memory; its \<^verbatim>\<open>expiresAt\<close> is
  \<open>calculateExpiryDate\<close> of the clock and the new game-service lifetime, and its
  \<^verbatim>\<open>microsoft.expires_at\<close> is \<open>calculateExpiryDate\<close> of the clock and the new OAuth
  lifetime on the \<open>MS_REFRESH\<close> path, and the value the selected record had before on the
  \<open>MC_REFRESH\<close> path.
\<close>

theorem written_expiries_are_margin_stamped:
  "(addMicrosoftAccount q authCode now w = (created, w', es) \<longrightarrow>
      (case created of
         Rejected r \<Rightarrow> w' = w \<and> ConfigSave \<notin> set es
       | Resolved account \<Rightarrow>
           (\<exists>fullAuth oauth.
              fullMicrosoftAuthFlow q authCode FULL = (Resolved fullAuth, butlast es) \<and>
              res_accessToken fullAuth = Some oauth \<and>
              last es = ConfigSave \<and> disk w' = config w' \<and>
              getSelectedAccount (disk w') = Some account \<and>
              authenticationDatabase (disk w') =
                (authenticationDatabase (config w))(uuid account \<mapsto> account) \<and>
              expiresAt account = Some (calculateExpiryDate now (mc_expires_in (res_mcToken fullAuth))) \<and>
              map_option expires_at (microsoft account) =
                Some (calculateExpiryDate now (ms_expires_in oauth))))) \<and>
   (validateSelectedMicrosoftAccount q now w = (outcome, w', es) \<longrightarrow>
      (if ConfigSave \<in> set es then disk w' = config w' else w' = w) \<and>
      ((authenticationDatabase (config w') k = Some a \<or>
        authenticationDatabase (disk w') k = Some a \<and> authenticationDatabase (disk w) k \<noteq> Some a) \<and>
       authenticationDatabase (config w) k \<noteq> Some a \<longrightarrow>
         (\<exists>current ms res.
            getSelectedAccount (config w) = Some current \<and> microsoft current = Some ms \<and>
            k = uuid current \<and>
            last es = ConfigSave \<and> disk w' = config w' \<and>
            authenticationDatabase (disk w') k = Some a \<and>
            expiresAt a = Some (calculateExpiryDate now (mc_expires_in (res_mcToken res))) \<and>
            (if now \<ge> expires_at ms
             then fullMicrosoftAuthFlow q (refresh_token ms) MS_REFRESH = (Resolved res, butlast es) \<and>
                  (\<exists>oauth. res_accessToken res = Some oauth \<and>
                     map_option expires_at (microsoft a) =
                       Some (calculateExpiryDate now (ms_expires_in oauth)))
             else fullMicrosoftAuthFlow q (access_token ms) MC_REFRESH = (Resolved res, butlast es) \<and>
                  map_option expires_at (microsoft a) = Some (expires_at ms)))))"
proof (intro conjI impI)
  assume add: "addMicrosoftAccount q authCode now w = (created, w', es)"
  show "case created of
         Rejected r \<Rightarrow> w' = w \<and> ConfigSave \<notin> set es
       | Resolved account \<Rightarrow>
           (\<exists>fullAuth oauth.
              fullMicrosoftAuthFlow q authCode FULL = (Resolved fullAuth, butlast es) \<and>
              res_accessToken fullAuth = Some oauth \<and>
              last es = ConfigSave \<and> disk w' = config w' \<and>
              getSelectedAccount (disk w') = Some account \<and>
              authenticationDatabase (disk w') =
                (authenticationDatabase (config w))(uuid account \<mapsto> account) \<and>
              expiresAt account = Some (calculateExpiryDate now (mc_expires_in (res_mcToken fullAuth))) \<and>
              map_option expires_at (microsoft account) =
                Some (calculateExpiryDate now (ms_expires_in oauth)))"
  proof (cases created)
    case (Rejected r)
    with addMicrosoftAccount_writes [OF add] show ?thesis by simp
  next
    case (Resolved account)
    with add have add': "addMicrosoftAccount q authCode now w = (Resolved account, w', es)"
      by simp
    from addMicrosoftAccount_writes [OF add] Resolved
    have "last es = ConfigSave" and "disk w' = config w'"
      and "authenticationDatabase (config w') =
             (authenticationDatabase (config w))(uuid account \<mapsto> account)"
      by simp_all
    with addMicrosoftAccount_selects [OF add'] Resolved show ?thesis
      by auto
  qed
next
  assume v: "validateSelectedMicrosoftAccount q now w = (outcome, w', es)"
  from validateSelectedMicrosoftAccount_writes [OF v]
  show "if ConfigSave \<in> set es then disk w' = config w' else w' = w"
    by (auto simp add: save_def split: if_splits)
next
  assume v: "validateSelectedMicrosoftAccount q now w = (outcome, w', es)"
  assume h: "(authenticationDatabase (config w') k = Some a \<or>
        authenticationDatabase (disk w') k = Some a \<and> authenticationDatabase (disk w) k \<noteq> Some a) \<and>
       authenticationDatabase (config w) k \<noteq> Some a"
  then have old: "authenticationDatabase (config w) k \<noteq> Some a" by simp
  from h have changed: "w' \<noteq> w" by auto
  with validateSelectedMicrosoftAccount_writes [OF v]
  obtain current ms res fs where
    sel: "getSelectedAccount (config w) = Some current" and ms: "microsoft current = Some ms"
    and es: "es = fs @ [ConfigSave]"
    and path: "if now \<ge> expires_at ms
             then fullMicrosoftAuthFlow q (refresh_token ms) MS_REFRESH = (Resolved res, fs) \<and>
                  (\<exists>oauth. res_accessToken res = Some oauth \<and>
                     w' = save (w\<lparr>config := updateMicrosoftAuthAccount (uuid current)
                            (mc_access_token (res_mcToken res))
                            (ms_access_token oauth) (ms_refresh_token oauth)
                            (calculateExpiryDate now (ms_expires_in oauth))
                            (calculateExpiryDate now (mc_expires_in (res_mcToken res))) (config w)\<rparr>))
             else fullMicrosoftAuthFlow q (access_token ms) MC_REFRESH = (Resolved res, fs) \<and>
                  w' = save (w\<lparr>config := updateMicrosoftAuthAccount (uuid current)
                         (mc_access_token (res_mcToken res))
                         (access_token ms) (refresh_token ms) (expires_at ms)
                         (calculateExpiryDate now (mc_expires_in (res_mcToken res))) (config w)\<rparr>)"
    by blast
  from path have saved: "disk w' = config w'"
    by (auto simp add: save_def split: if_splits)
  with h have new: "authenticationDatabase (config w') k = Some a" by auto
  show "\<exists>current ms res.
            getSelectedAccount (config w) = Some current \<and> microsoft current = Some ms \<and>
            k = uuid current \<and>
            last es = ConfigSave \<and> disk w' = config w' \<and>
            authenticationDatabase (disk w') k = Some a \<and>
            expiresAt a = Some (calculateExpiryDate now (mc_expires_in (res_mcToken res))) \<and>
            (if now \<ge> expires_at ms
             then fullMicrosoftAuthFlow q (refresh_token ms) MS_REFRESH = (Resolved res, butlast es) \<and>
                  (\<exists>oauth. res_accessToken res = Some oauth \<and>
                     map_option expires_at (microsoft a) =
                       Some (calculateExpiryDate now (ms_expires_in oauth)))
             else fullMicrosoftAuthFlow q (access_token ms) MC_REFRESH = (Resolved res, butlast es) \<and>
                  map_option expires_at (microsoft a) = Some (expires_at ms))"
  proof (cases "now \<ge> expires_at ms")
    case True
    with path obtain oauth where
      f: "fullMicrosoftAuthFlow q (refresh_token ms) MS_REFRESH = (Resolved res, fs)"
      and tok: "res_accessToken res = Some oauth"
      and w': "w' = save (w\<lparr>config := updateMicrosoftAuthAccount (uuid current)
                            (mc_access_token (res_mcToken res))
                            (ms_access_token oauth) (ms_refresh_token oauth)
                            (calculateExpiryDate now (ms_expires_in oauth))
                            (calculateExpiryDate now (mc_expires_in (res_mcToken res))) (config w)\<rparr>)"
      by auto
    from new w' have
      "authenticationDatabase (updateMicrosoftAuthAccount (uuid current)
                            (mc_access_token (res_mcToken res))
                            (ms_access_token oauth) (ms_refresh_token oauth)
                            (calculateExpiryDate now (ms_expires_in oauth))
                            (calculateExpiryDate now (mc_expires_in (res_mcToken res))) (config w)) k = Some a"
      by (simp add: save_def)
    from updateMicrosoftAuthAccount_written [OF this old] sel ms es saved new True f tok
    show ?thesis by simp
  next
    case False
    with path have
      f: "fullMicrosoftAuthFlow q (access_token ms) MC_REFRESH = (Resolved res, fs)"
      and w': "w' = save (w\<lparr>config := updateMicrosoftAuthAccount (uuid current)
                         (mc_access_token (res_mcToken res))
                         (access_token ms) (refresh_token ms) (expires_at ms)
                         (calculateExpiryDate now (mc_expires_in (res_mcToken res))) (config w)\<rparr>)"
      by auto
    from new w' have
      "authenticationDatabase (updateMicrosoftAuthAccount (uuid current)
                         (mc_access_token (res_mcToken res))
                         (access_token ms) (refresh_token ms) (expires_at ms)
                         (calculateExpiryDate now (mc_expires_in (res_mcToken res))) (config w)) k = Some a"
      by (simp add: save_def)
    from updateMicrosoftAuthAccount_written [OF this old] sel ms es saved new False f
    show ?thesis by simp
  qed
qed

theorem written_expiries_are_margin_stamped_witness:
  "addMicrosoftAccount (sampleRequirements 0 86400 3600) ''code'' 1000 emptyWorld =
     (Resolved createdAccount, createdWorld,
      [EnterFlow FULL ''code'', GetAccessToken ''code'' False ''client-id'', GetXBLToken ''oauth-2'',
       GetXSTSToken ''xbl'', GetMCAccessToken ''xsts'', GetMCProfile ''mc-2'', ConfigSave]) \<and>
   getSelectedAccount (disk createdWorld) = Some createdAccount \<and>
   expiresAt createdAccount = Some (calculateExpiryDate 1000 3600) \<and>
   map_option expires_at (microsoft createdAccount) = Some (calculateExpiryDate 1000 86400) \<and>
   addMicrosoftAccount (sampleRequirements 4 86400 3600) ''code'' 1000 microsoftWorld =
     (Rejected (microsoftErrorDisplayable (MicrosoftErrorCode.OTHER 4)), microsoftWorld,
      [EnterFlow FULL ''code'', GetAccessToken ''code'' False ''client-id'', GetXBLToken ''oauth-2'',
       GetXSTSToken ''xbl'', GetMCAccessToken ''xsts'']) \<and>
   authenticationDatabase (config microsoftWorld) ''uuid-1'' = Some microsoftAccount \<and>
   authenticationDatabase (disk microsoftWorld) ''uuid-1'' = Some microsoftAccount \<and>
   expiresAt microsoftAccount \<noteq> Some (calculateExpiryDate 90000000 3600) \<and>
   expiresAt microsoftAccount \<noteq> Some (calculateExpiryDate 4000000 3600) \<and>
   ConfigSave \<in> set (snd (snd (validateSelectedMicrosoftAccount (sampleRequirements 0 86400 3600)
                                   90000000 microsoftWorld))) \<and>
   disk (fst (snd (validateSelectedMicrosoftAccount (sampleRequirements 0 86400 3600)
                     90000000 microsoftWorld))) =
   config (fst (snd (validateSelectedMicrosoftAccount (sampleRequirements 0 86400 3600)
                       90000000 microsoftWorld))) \<and>
   authenticationDatabase
     (disk (fst (snd (validateSelectedMicrosoftAccount (sampleRequirements 0 86400 3600)
                        90000000 microsoftWorld)))) ''uuid-1'' =
     Some \<lparr> type = ''microsoft'', uuid = ''uuid-1'', accessToken = ''mc-2'',
            username = ''Steve'', displayName = ''Steve'',
            expiresAt = Some (calculateExpiryDate 90000000 3600),
            microsoft = Some \<lparr> access_token = ''oauth-2'', refresh_token = ''refresh-2'',
                               expires_at = calculateExpiryDate 90000000 86400 \<rparr> \<rparr> \<and>
   authenticationDatabase
     (disk (fst (snd (validateSelectedMicrosoftAccount (sampleRequirements 0 86400 3600)
                        4000000 microsoftWorld)))) ''uuid-1'' =
     Some \<lparr> type = ''microsoft'', uuid = ''uuid-1'', accessToken = ''mc-2'',
            username = ''Steve'', displayName = ''Steve'',
            expiresAt = Some (calculateExpiryDate 4000000 3600),
            microsoft = Some \<lparr> access_token = ''oauth-1'', refresh_token = ''refresh-1'',
                               expires_at = 86391000 \<rparr> \<rparr> \<and>
   validateSelectedMicrosoftAccount (sampleRequirements 3 86400 3600) 90000000 microsoftWorld =
     (Resolved (JSBool False), microsoftWorld,
      [EnterFlow MS_REFRESH ''refresh-1'', GetAccessToken ''refresh-1'' True ''client-id'',
       GetXBLToken ''oauth-2'', GetXSTSToken ''xbl''])"
  using written_expiries_are_margin_stamped
          [where q = "sampleRequirements 0 86400 3600" and authCode = "''code''" and now = 1000
             and w = emptyWorld and created = "Resolved createdAccount" and w' = createdWorld
             and es = "[EnterFlow FULL ''code'', GetAccessToken ''code'' False ''client-id'',
                        GetXBLToken ''oauth-2'', GetXSTSToken ''xbl'', GetMCAccessToken ''xsts'',
                        GetMCProfile ''mc-2'', ConfigSave]"]
        written_expiries_are_margin_stamped
          [where q = "sampleRequirements 4 86400 3600" and authCode = "''code''" and now = 1000
             and w = microsoftWorld
             and created = "Rejected (microsoftErrorDisplayable (MicrosoftErrorCode.OTHER 4))"
             and w' = microsoftWorld
             and es = "[EnterFlow FULL ''code'', GetAccessToken ''code'' False ''client-id'',
                        GetXBLToken ''oauth-2'', GetXSTSToken ''xbl'', GetMCAccessToken ''xsts'']"]
        written_expiries_are_margin_stamped
          [where q = "sampleRequirements 0 86400 3600" and now = 90000000 and w = microsoftWorld
             and outcome = "fst (validateSelectedMicrosoftAccount (sampleRequirements 0 86400 3600)
                                   90000000 microsoftWorld)"
             and w' = "fst (snd (validateSelectedMicrosoftAccount (sampleRequirements 0 86400 3600)
                                   90000000 microsoftWorld))"
             and es = "snd (snd (validateSelectedMicrosoftAccount (sampleRequirements 0 86400 3600)
                                   90000000 microsoftWorld))"
             and k = "''uuid-1''"
             and a = "\<lparr> type = ''microsoft'', uuid = ''uuid-1'', accessToken = ''mc-2'',
                        username = ''Steve'', displayName = ''Steve'',
                        expiresAt = Some (calculateExpiryDate 90000000 3600),
                        microsoft = Some \<lparr> access_token = ''oauth-2'', refresh_token = ''refresh-2'',
                                           expires_at = calculateExpiryDate 90000000 86400 \<rparr> \<rparr>"]
        written_expiries_are_margin_stamped
          [where q = "sampleRequirements 0 86400 3600" and now = 4000000 and w = microsoftWorld
             and outcome = "fst (validateSelectedMicrosoftAccount (sampleRequirements 0 86400 3600)
                                   4000000 microsoftWorld)"
             and w' = "fst (snd (validateSelectedMicrosoftAccount (sampleRequirements 0 86400 3600)
                                   4000000 microsoftWorld))"
             and es = "snd (snd (validateSelectedMicrosoftAccount (sampleRequirements 0 86400 3600)
                                   4000000 microsoftWorld))"
             and k = "''uuid-1''"
             and a = "\<lparr> type = ''microsoft'', uuid = ''uuid-1'', accessToken = ''mc-2'',
                        username = ''Steve'', displayName = ''Steve'',
                        expiresAt = Some (calculateExpiryDate 4000000 3600),
                        microsoft = Some \<lparr> access_token = ''oauth-1'', refresh_token = ''refresh-1'',
                                           expires_at = 86391000 \<rparr> \<rparr>"]
        written_expiries_are_margin_stamped
          [where q = "sampleRequirements 3 86400 3600" and now = 90000000 and w = microsoftWorld
             and outcome = "Resolved (JSBool False)" and w' = microsoftWorld
             and es = "[EnterFlow MS_REFRESH ''refresh-1'',
                        GetAccessToken ''refresh-1'' True ''client-id'',
                        GetXBLToken ''oauth-2'', GetXSTSToken ''xbl'']"]
  by (simp add: addMicrosoftAccount_def validateSelectedMicrosoftAccount_def fullMicrosoftAuthFlow_def
        calculateExpiryDate_def sample_defs store_defs)

subsection \<open>Password accounts\<close>

text \<open>
  C10: when \<^verbatim>\<open>MojangRestAPI\<close> is bound and its session-validate call answers with a
  response whose status is \<open>ERROR\<close>, the password validator resolves with
  \<^verbatim>\<open>undefined\<close>, neither true nor false; its only effect is that one call (no refresh is
  attempted, nothing is saved), and the store is what it was.
\<close>

theorem validateSelectedMojangAccount_error_response_undefined:
  assumes "MojangRestAPI g = Some api"
      and "getSelectedAccount (config w) = Some current"
      and "validate api (accessToken current) (getClientToken (config w)) = Returns (ERROR c)"
  shows "validateSelectedMojangAccount g w =
           (Resolved JSUndefined, w, [MojangValidate (accessToken current) (getClientToken (config w))])"
  using assms by (simp add: validateSelectedMojangAccount_def)

theorem validateSelectedMojangAccount_error_response_undefined_witness:
  "MojangRestAPI boundScope = Some sampleMojang \<and>
   getSelectedAccount (config passwordWorld) = Some passwordAccount \<and>
   validate sampleMojang ''token-9'' (Some ''token-9'') = Returns (ERROR MojangErrorCode.UNKNOWN) \<and>
   validateSelectedMojangAccount boundScope passwordWorld =
     (Resolved JSUndefined, passwordWorld, [MojangValidate ''token-9'' (Some ''token-9'')])"
  using validateSelectedMojangAccount_error_response_undefined
          [where g = boundScope and api = sampleMojang and w = passwordWorld
             and current = passwordAccount and c = MojangErrorCode.UNKNOWN]
  by (simp add: sample_defs store_defs)

text \<open>
  A selected account tagged \<^verbatim>\<open>'microsoft'\<close> that has its \<^verbatim>\<open>microsoft\<close> part goes to the Microsoft
  validator, and the outcome is a boolean.
\<close>

lemma validateSelected_microsoft_boolean:
  assumes "getSelectedAccount (config w) = Some current"
      and "type current = ''microsoft''" and "microsoft current = Some ms"
  shows "validateSelected g q now w = validateSelectedMicrosoftAccount q now w"
    and "\<exists>b. fst (validateSelected g q now w) = Resolved (JSBool b)"
  using assms
  by (auto simp add: validateSelected_def validateSelectedMicrosoftAccount_def
           split: option.splits prod.splits promise.splits)

text \<open>
  C5, at a failing input: the selected account is a password account. In the scope of the
  module, \<^verbatim>\<open>validateSelectedGalaxyquestAccount\<close> has no binding, and \<open>validateSelected\<close> is
  rejected with a \<open>ReferenceError\<close>; no boolean comes out. And in a scope that binds the
  name to the password validator that the module does define, with a session-validate
  call that answers \<open>ERROR\<close>, \<open>validateSelected\<close> resolves with \<^verbatim>\<open>undefined\<close>.
\<close>

theorem validateSelected_password_account_not_boolean:
  "validateSelected moduleScope (sampleRequirements 0 86400 3600) 1000 passwordWorld =
     (Rejected (ReferenceError ''validateSelectedGalaxyquestAccount''), passwordWorld, []) \<and>
   validateSelected aliasedScope (sampleRequirements 0 86400 3600) 1000 passwordWorld =
     (Resolved JSUndefined, passwordWorld, [MojangValidate ''token-9'' (Some ''token-9'')])"
  by (simp add: validateSelected_def validateSelectedMojangAccount_def sample_defs store_defs)

text \<open>
  Whatever the collaborators answer, a second-factor code that \<open>addGalaxyQuestAccount\<close>
  passes to \<open>login\<close> is the empty string.
\<close>

lemma addGalaxyQuestAccount_code_always_empty:
  assumes "addGalaxyQuestAccount g q username' password w = (outcome, w', es)"
      and "ClientLogin u p (Some code) \<in> set es"
  shows "code = []"
  using assms
  by (auto simp add: addGalaxyQuestAccount_def Let_def
           split: awaited.splits if_splits sum.splits prod.splits)

text \<open>
  C4, at a failing input: the provider asks for the second factor and would accept the
  code \<open>''123456''\<close>. \<open>addGalaxyQuestAccount\<close> calls \<open>login\<close> a second time inside the
  same call, with the empty string for the code, and is rejected: with
  \<^verbatim>\<open>mojangErrorDisplayable(MojangErrorCode.ERROR_INVALID_CREDENTIALS)\<close> in a scope that binds
  the two names, and with a \<open>ReferenceError\<close> in the scope of the module. The store is
  what it was.
\<close>

theorem addGalaxyQuestAccount_second_factor_code_is_empty:
  "login (sampleRequirements 0 86400 3600) ''alice'' ''secret'' None =
     Returns \<lparr> status = ''pending'', requires2fa = True, login_uuid = [],
               login_accessToken = [], login_username = ''alice'' \<rparr> \<and>
   login (sampleRequirements 0 86400 3600) ''alice'' ''secret'' (Some ''123456'') =
     Returns \<lparr> status = ''success'', requires2fa = False, login_uuid = ''uuid-9'',
               login_accessToken = ''token-9'', login_username = ''alice'' \<rparr> \<and>
   addGalaxyQuestAccount boundScope (sampleRequirements 0 86400 3600) ''alice'' ''secret'' emptyWorld =
     (Rejected (mojangErrorDisplayable ERROR_INVALID_CREDENTIALS), emptyWorld,
      [ClientLogin ''alice'' ''secret'' None, ClientLogin ''alice'' ''secret'' (Some [])]) \<and>
   addGalaxyQuestAccount moduleScope (sampleRequirements 0 86400 3600) ''alice'' ''secret'' emptyWorld =
     (Rejected (ReferenceError ''mojangErrorDisplayable''), emptyWorld,
      [ClientLogin ''alice'' ''secret'' None, ClientLogin ''alice'' ''secret'' (Some [])])"
  by (simp add: addGalaxyQuestAccount_def addGalaxyQuestAccount_catch_def evalMojangErrorDisplayable_def
        sample_defs store_defs)

end
